theory Spec2Isabelle
  imports Main "HOL-Library.Word" "HOL-Library.Code_Target_Numeral"
begin

section \<open>Strings and bytes\<close>

text \<open>
  A Go \<^verbatim>\<open>string\<close> is a sequence of bytes and is modelled as \<^typ>\<open>string\<close>; a
  \<^verbatim>\<open>[]byte\<close> is a list of 8-bit words.
\<close>

type_synonym byte = "8 word"

text \<open>
  \<^verbatim>\<open>strings.ToLower\<close>, on the ASCII range: the letters \<^verbatim>\<open>A\<close> to \<^verbatim>\<open>Z\<close> are
  mapped to \<^verbatim>\<open>a\<close> to \<^verbatim>\<open>z\<close>, every other byte is kept.
\<close>

definition lower_char :: "char \<Rightarrow> char" where
  "lower_char c =
     (let n = (of_char c :: nat) in if 65 \<le> n \<and> n \<le> 90 then char_of (n + 32) else c)"

definition ToLower :: "string \<Rightarrow> string" where
  "ToLower s = map lower_char s"

definition HasPrefix :: "string \<Rightarrow> string \<Rightarrow> bool" where
  "HasPrefix s p \<longleftrightarrow> length p \<le> length s \<and> take (length p) s = p"

definition HasSuffix :: "string \<Rightarrow> string \<Rightarrow> bool" where
  "HasSuffix s p \<longleftrightarrow> length p \<le> length s \<and> drop (length s - length p) s = p"

definition TrimPrefix :: "string \<Rightarrow> string \<Rightarrow> string" where
  "TrimPrefix s p = (if HasPrefix s p then drop (length p) s else s)"

definition TrimSuffix :: "string \<Rightarrow> string \<Rightarrow> string" where
  "TrimSuffix s p = (if HasSuffix s p then take (length s - length p) s else s)"

section \<open>Configuration\<close>

text \<open>
  The \<^verbatim>\<open>Config\<close> struct. \<^verbatim>\<open>MaxFileSize\<close> is an \<^verbatim>\<open>int64\<close>; the program only
  compares it, so it is an \<^typ>\<open>int\<close> here.
\<close>

record Config =
  MaxFileSize :: int
  APIKey :: string
  UploadDir :: string
  Port :: string
  Domain_cfg :: string
  AllowedTypes :: "string list"

datatype config_error =
    MaxFileSizeNotPositive
  | APIKeyEmpty
  | UploadDirEmpty
  | DomainEmpty

definition default_allowed_types :: "string list" where
  "default_allowed_types =
     [''image/jpeg'', ''image/jpg'', ''image/pjpeg'',
      ''image/png'',
      ''image/gif'',
      ''image/webp'',
      ''image/svg+xml'',
      ''image/*'',
      ''audio/mpeg'', ''audio/ogg'', ''audio/wav'', ''audio/webm'', ''audio/aac'']"

text \<open>
  \<^verbatim>\<open>loadConfig\<close>, from the point where \<^verbatim>\<open>config.json\<close> has been read and
  unmarshalled into the struct: validation and defaults.
\<close>

definition loadConfig :: "Config \<Rightarrow> config_error + Config" where
  "loadConfig c =
     (if MaxFileSize c \<le> 0 then Inl MaxFileSizeNotPositive
      else if APIKey c = [] then Inl APIKeyEmpty
      else if UploadDir c = [] then Inl UploadDirEmpty
      else let c1 = (if Port c = [] then c\<lparr>Port := '':8080''\<rparr> else c) in
        if Domain_cfg c1 = [] then Inl DomainEmpty
        else let c2 = (if AllowedTypes c1 = []
                       then c1\<lparr>AllowedTypes := default_allowed_types\<rparr> else c1)
          in Inr c2)"

section \<open>Type Validator\<close>

text \<open>
  \<^verbatim>\<open>isAllowedFileType\<close>: a first loop over the allow-list looks for an entry equal to
  the candidate after lower-casing both; a second loop looks for an entry ending in
  \<^verbatim>\<open>/*\<close> whose text before that suffix is a prefix of the lower-cased candidate.
\<close>

definition exact_match :: "string \<Rightarrow> string \<Rightarrow> bool" where
  "exact_match contentTypeLower allowedType \<longleftrightarrow> contentTypeLower = ToLower allowedType"

definition wildcard_match :: "string \<Rightarrow> string \<Rightarrow> bool" where
  "wildcard_match contentTypeLower allowedType \<longleftrightarrow>
     (let allowedTypeLower = ToLower allowedType in
        HasSuffix allowedTypeLower ''/*'' \<and>
        HasPrefix contentTypeLower (TrimSuffix allowedTypeLower ''/*''))"

definition isAllowedFileType :: "Config \<Rightarrow> string \<Rightarrow> bool" where
  "isAllowedFileType cfg contentType =
     (let contentTypeLower = ToLower contentType in
        if list_ex (exact_match contentTypeLower) (AllowedTypes cfg) then True
        else if list_ex (wildcard_match contentTypeLower) (AllowedTypes cfg) then True
        else False)"

text \<open>
  The rule as the specification words it, for comparison: an entry equal to the candidate
  up to case, or an entry \<^verbatim>\<open>category/*\<close> where the candidate begins, up to case, with
  \<^verbatim>\<open>category/\<close>, the slash included.
\<close>

definition spec_wildcard :: "string \<Rightarrow> string \<Rightarrow> bool" where
  "spec_wildcard c entry \<longleftrightarrow>
     HasSuffix (ToLower entry) ''/*'' \<and>
     HasPrefix (ToLower c) (TrimSuffix (ToLower entry) ''*'')"

definition spec_allowed :: "string list \<Rightarrow> string \<Rightarrow> bool" where
  "spec_allowed L c \<longleftrightarrow>
     list_ex (\<lambda>entry. ToLower entry = ToLower c) L \<or> list_ex (spec_wildcard c) L"

section \<open>Responses\<close>

text \<open>
  The \<^verbatim>\<open>Response\<close> struct and its JSON encoding. The fields \<^verbatim>\<open>url\<close> and
  \<^verbatim>\<open>max_file_size\<close> are tagged \<^verbatim>\<open>omitempty\<close>: the encoder leaves them out when
  they hold the empty string or zero.
\<close>

record Response =
  Success :: bool
  Message :: string
  URL :: string
  Resp_MaxFileSize :: int

datatype json_value = JBool bool | JString string | JNumber int

definition json_fields :: "Response \<Rightarrow> (string \<times> json_value) list" where
  "json_fields resp =
     [(''success'', JBool (Success resp)), (''message'', JString (Message resp))]
     @ (if URL resp = [] then [] else [(''url'', JString (URL resp))])
     @ (if Resp_MaxFileSize resp = 0 then []
        else [(''max_file_size'', JNumber (Resp_MaxFileSize resp))])"

datatype response_body =
    JSONBody Response
  | TextBody string
  | FileBody "byte list"

record http_response =
  Status :: nat
  RespHeader :: "(string \<times> string) list"
  RespBody :: response_body

text \<open>
  \<^verbatim>\<open>http.Error\<close> writes the status code and the message followed by a newline as plain
  text.
\<close>

definition http_Error :: "string \<Rightarrow> nat \<Rightarrow> http_response" where
  "http_Error msg code =
     \<lparr>Status = code,
      RespHeader = [(''Content-Type'', ''text/plain; charset=utf-8''),
                    (''X-Content-Type-Options'', ''nosniff'')],
      RespBody = TextBody (msg @ [CHR 0x0A])\<rparr>"

text \<open>
  A handler that encodes JSON without setting a status answers with 200.
\<close>

definition encode_json :: "Response \<Rightarrow> http_response" where
  "encode_json resp =
     \<lparr>Status = 200,
      RespHeader = [(''Content-Type'', ''application/json'')],
      RespBody = JSONBody resp\<rparr>"

definition sendJSONResponse :: "bool \<Rightarrow> string \<Rightarrow> string \<Rightarrow> http_response" where
  "sendJSONResponse success message url =
     encode_json \<lparr>Success = success, Message = message, URL = url, Resp_MaxFileSize = 0\<rparr>"

section \<open>Requests\<close>

text \<open>
  What the handlers read of a request: the method, \<^verbatim>\<open>r.URL.Path\<close>, the parsed query
  string, the headers under their canonical names, and the bytes of the body.
\<close>

record request =
  Method :: string
  URLPath :: string
  Query :: "(string \<times> string) list"
  Header :: "string \<rightharpoonup> string"
  Body :: "byte list"

text \<open>\<^verbatim>\<open>Header.Get\<close> yields the empty string for a header that is absent.\<close>

definition Header_Get :: "(string \<rightharpoonup> string) \<Rightarrow> string \<Rightarrow> string" where
  "Header_Get h k = (case h k of None \<Rightarrow> [] | Some v \<Rightarrow> v)"

section \<open>Health check\<close>

definition testHandler :: "Config \<Rightarrow> request \<Rightarrow> http_response" where
  "testHandler cfg r =
     (if Method r \<noteq> ''GET'' then http_Error ''Method not allowed'' 405
      else let apiKeyHeader = Header_Get (Header r) ''X-API-Key'' in
        if apiKeyHeader \<noteq> APIKey cfg then sendJSONResponse False ''Invalid API key'' []
        else encode_json \<lparr>Success = True, Message = ''API key is valid'', URL = [],
                          Resp_MaxFileSize = MaxFileSize cfg\<rparr>)"

definition json_of :: "http_response \<Rightarrow> (string \<times> json_value) list option" where
  "json_of w = (case RespBody w of JSONBody resp \<Rightarrow> Some (json_fields resp) | _ \<Rightarrow> None)"

section \<open>Filename Generator\<close>

text \<open>
  \<^verbatim>\<open>filepath.Ext\<close> scans the path from its end: it stops with the empty string at a
  path separator and returns the suffix that starts at the first dot it meets.
  \<open>ext_scan\<close> walks the reversed path and collects what it has passed.
\<close>

fun ext_scan :: "string \<Rightarrow> string \<Rightarrow> string" where
  "ext_scan [] seen = []"
| "ext_scan (c # front) seen =
     (if c = CHR ''/'' then []
      else if c = CHR ''.'' then c # seen
      else ext_scan front (c # seen))"

definition Ext :: "string \<Rightarrow> string" where
  "Ext path = ext_scan (rev path) []"

text \<open>
  \<^verbatim>\<open>base64.URLEncoding.EncodeToString\<close>: three bytes give four characters of the
  URL-safe alphabet; a final group of one or two bytes is padded with \<^verbatim>\<open>=\<close>.
\<close>

definition encodeURL :: string where
  "encodeURL = ''ABCDEFGHIJKLMNOPQRSTUVWXYZabcdefghijklmnopqrstuvwxyz0123456789-_''"

definition enc :: "nat \<Rightarrow> char" where
  "enc v = encodeURL ! (v mod 64)"

fun EncodeToString :: "byte list \<Rightarrow> string" where
  "EncodeToString (a # b # c # rest) =
     (let val = unat a * 65536 + unat b * 256 + unat c in
        [enc (val div 262144), enc (val div 4096), enc (val div 64), enc val]
        @ EncodeToString rest)"
| "EncodeToString [a, b] =
     (let val = unat a * 65536 + unat b * 256 in
        [enc (val div 262144), enc (val div 4096), enc (val div 64), CHR ''=''])"
| "EncodeToString [a] =
     (let val = unat a * 65536 in
        [enc (val div 262144), enc (val div 4096), CHR ''='', CHR ''=''])"
| "EncodeToString [] = []"

section \<open>Storage Backend and process state\<close>

datatype error =
    EntropyUnavailable
  | PathError string string string
  | RequestBodyTooLarge
  | PostTooLarge
  | FormError string
  | CorruptInput

text \<open>The text \<^verbatim>\<open>%v\<close> prints for an error.\<close>

fun error_text :: "error \<Rightarrow> string" where
  "error_text EntropyUnavailable = ''entropy unavailable''"
| "error_text (PathError op path reason) = op @ '' '' @ path @ '': '' @ reason"
| "error_text RequestBodyTooLarge = ''http: request body too large''"
| "error_text PostTooLarge = ''http: POST too large''"
| "error_text (FormError msg) = msg"
| "error_text CorruptInput = ''illegal base64 data''"

text \<open>
  What the handlers touch outside the request: the upload directory as a map from paths
  to the content of regular files, the free space of the disk, whether files can be
  created in the directory, the bytes the system's random source can still supply, the
  clock (in nanoseconds) and the removals that sleeping goroutines will perform, each
  with the instant at which its sleep ends.
\<close>

record server =
  files :: "string \<rightharpoonup> byte list"
  free :: nat
  dir_ok :: bool
  entropy :: "byte list"
  now :: nat
  pending :: "(nat \<times> string) list"

text \<open>
  \<^verbatim>\<open>os.Create\<close> fails when the directory cannot be written; otherwise the file
  exists afterwards and is empty (an existing file is truncated).
\<close>

definition os_Create :: "string \<Rightarrow> server \<Rightarrow> (error + unit) \<times> server" where
  "os_Create path s =
     (if \<not> dir_ok s then (Inl (PathError ''open'' path ''permission denied''), s)
      else (Inr (),
            s\<lparr>files := (files s)(path \<mapsto> []),
              free := free s + (case files s path of None \<Rightarrow> 0 | Some old \<Rightarrow> length old)\<rparr>))"

text \<open>
  \<^verbatim>\<open>io.Copy\<close> into a file just created: the bytes that fit on the disk are written;
  when not all of them fit the copy fails and what was written stays.
\<close>

definition io_Copy :: "string \<Rightarrow> byte list \<Rightarrow> server \<Rightarrow> (error + nat) \<times> server" where
  "io_Copy path data s =
     (if length data \<le> free s
      then (Inr (length data),
            s\<lparr>files := (files s)(path \<mapsto> data), free := free s - length data\<rparr>)
      else (Inl (PathError ''write'' path ''no space left on device''),
            s\<lparr>files := (files s)(path \<mapsto> take (free s) data), free := 0\<rparr>))"

text \<open>\<^verbatim>\<open>os.Remove\<close>, its error dropped as the caller drops it.\<close>

definition os_Remove :: "string \<Rightarrow> server \<Rightarrow> server" where
  "os_Remove path s =
     (case files s path of
        None \<Rightarrow> s
      | Some old \<Rightarrow> s\<lparr>files := (files s)(path := None), free := free s + length old\<rparr>)"

text \<open>
  \<^verbatim>\<open>rand.Read\<close> fills a buffer of \<open>n\<close> bytes or fails; it fails here when the
  source has fewer than \<open>n\<close> bytes left.
\<close>

definition rand_Read :: "nat \<Rightarrow> server \<Rightarrow> (error + byte list) \<times> server" where
  "rand_Read n s =
     (if length (entropy s) < n then (Inl EntropyUnavailable, s)
      else (Inr (take n (entropy s)), s\<lparr>entropy := drop n (entropy s)\<rparr>))"

definition generateRandomFilename :: "string \<Rightarrow> server \<Rightarrow> (error + string) \<times> server" where
  "generateRandomFilename originalFilename s =
     (let ext = Ext originalFilename in
        case rand_Read 16 s of
          (Inl err, s1) \<Rightarrow> (Inl err, s1)
        | (Inr b, s1) \<Rightarrow>
            (let randomName = EncodeToString b in (Inr (randomName @ ext), s1)))"

text \<open>
  \<^verbatim>\<open>filepath.Join\<close> joins the elements from the first non-empty one on with slashes and
  cleans the result: empty and \<^verbatim>\<open>.\<close> elements vanish, \<^verbatim>\<open>..\<close> removes the element
  before it (or stays at the front of a relative path, or vanishes at the root).
\<close>

fun split_slash :: "string \<Rightarrow> string list" where
  "split_slash [] = [[]]"
| "split_slash (c # cs) =
     (if c = CHR ''/'' then [] # split_slash cs
      else (case split_slash cs of e # es \<Rightarrow> (c # e) # es | [] \<Rightarrow> [[c]]))"

fun join_slash :: "string list \<Rightarrow> string" where
  "join_slash [] = []"
| "join_slash [e] = e"
| "join_slash (e # es) = e @ ''/'' @ join_slash es"

fun clean_elems :: "bool \<Rightarrow> string list \<Rightarrow> string list \<Rightarrow> string list" where
  "clean_elems rooted out [] = rev out"
| "clean_elems rooted out (e # es) =
     (if e = [] \<or> e = ''.'' then clean_elems rooted out es
      else if e = ''..'' then
        (case out of
           x # out' \<Rightarrow>
             if x = ''..'' then clean_elems rooted (e # out) es
             else clean_elems rooted out' es
         | [] \<Rightarrow> if rooted then clean_elems rooted [] es else clean_elems rooted [e] es)
      else clean_elems rooted (e # out) es)"

definition Clean :: "string \<Rightarrow> string" where
  "Clean path =
     (if path = [] then ''.''
      else let rooted = (hd path = CHR ''/'');
               out = clean_elems rooted [] (split_slash path)
        in if rooted then ''/'' @ join_slash out
           else if out = [] then ''.'' else join_slash out)"

definition filepath_Join :: "string list \<Rightarrow> string" where
  "filepath_Join elem =
     (case dropWhile (\<lambda>e. e = []) elem of [] \<Rightarrow> [] | es \<Rightarrow> Clean (join_slash es))"

definition saveFileAndGenerateURL ::
  "Config \<Rightarrow> string \<Rightarrow> byte list \<Rightarrow> server \<Rightarrow> (error + string) \<times> server" where
  "saveFileAndGenerateURL cfg filename data s =
     (let filepath = filepath_Join [UploadDir cfg, filename] in
        case os_Create filepath s of
          (Inl err, s1) \<Rightarrow> (Inl err, s1)
        | (Inr dst, s1) \<Rightarrow>
            (case io_Copy filepath data s1 of
               (Inl err, s2) \<Rightarrow> (Inl err, s2)
             | (Inr n, s2) \<Rightarrow>
                 (let downloadURL = ''https://'' @ Domain_cfg cfg @ ''/download/'' @ filename
                  in (Inr downloadURL, s2))))"

section \<open>Upload Admission Pipeline\<close>

text \<open>
  The library functions the handlers call on request data are parameters of the model:
  \<^verbatim>\<open>http.DetectContentType\<close>, \<^verbatim>\<open>base64.StdEncoding.DecodeString\<close>, the multipart
  reader behind \<^verbatim>\<open>ParseMultipartForm\<close> (given the \<^verbatim>\<open>Content-Type\<close> header and the
  body) and \<^verbatim>\<open>url.ParseQuery\<close>.
\<close>

record FileHeader =
  Filename :: string
  PartHeader :: "string \<rightharpoonup> string"
  Content :: "byte list"

record multipart_form =
  Value :: "(string \<times> string) list"
  File :: "(string \<times> FileHeader) list"

record env =
  DetectContentType :: "byte list \<Rightarrow> string"
  DecodeString :: "string \<Rightarrow> error + byte list"
  ReadForm :: "string \<Rightarrow> byte list \<Rightarrow> error + multipart_form"
  ParseQuery :: "byte list \<Rightarrow> error + (string \<times> string) list"

text \<open>
  \<^verbatim>\<open>http.MaxBytesReader\<close>: reading a body longer than the limit to its end fails; a
  negative limit counts as zero.
\<close>

definition MaxBytesReader :: "int \<Rightarrow> byte list \<Rightarrow> error + byte list" where
  "MaxBytesReader n body =
     (if max 0 n < int (length body) then Inl RequestBodyTooLarge else Inr body)"

text \<open>
  \<^verbatim>\<open>ParseMultipartForm\<close> reads the whole body through the limited reader. The form
  values it leaves in \<^verbatim>\<open>r.Form\<close> are those of the query string followed by those of
  the multipart body.
\<close>

definition ParseMultipartForm ::
  "env \<Rightarrow> request \<Rightarrow> error + byte list \<Rightarrow> error + multipart_form" where
  "ParseMultipartForm env r body =
     (case body of
        Inl err \<Rightarrow> Inl err
      | Inr b \<Rightarrow> ReadForm env (Header_Get (Header r) ''Content-Type'') b)"

text \<open>
  \<^verbatim>\<open>ParseForm\<close> on a url-encoded POST whose body is not behind a
  \<^verbatim>\<open>MaxBytesReader\<close>: a body of more than 10 MB is refused; \<^verbatim>\<open>r.Form\<close> holds the
  values of the body followed by those of the query string.
\<close>

definition ParseForm :: "env \<Rightarrow> request \<Rightarrow> error + (string \<times> string) list" where
  "ParseForm env r =
     (if 10485760 < length (Body r) then Inl PostTooLarge
      else case ParseQuery env (Body r) of
             Inl err \<Rightarrow> Inl err
           | Inr post \<Rightarrow> Inr (post @ Query r))"

text \<open>\<^verbatim>\<open>FormValue\<close>: the first value of the key, or the empty string.\<close>

definition FormValue :: "(string \<times> string) list \<Rightarrow> string \<Rightarrow> string" where
  "FormValue form key = (case map_of form key of None \<Rightarrow> [] | Some v \<Rightarrow> v)"

definition FormFile :: "multipart_form \<Rightarrow> string \<Rightarrow> FileHeader option" where
  "FormFile form key = map_of (File form) key"




section \<open>One-Shot Download Handler\<close>

text \<open>Decimal digits of a number, as \<^verbatim>\<open>%d\<close> prints it.\<close>

fun string_of_nat :: "nat \<Rightarrow> string" where
  "string_of_nat n =
     (if n < 10 then [char_of (48 + n)]
      else string_of_nat (n div 10) @ [char_of (48 + n mod 10)])"

definition time_Second :: nat where
  "time_Second = 1000000000"

text \<open>
  \<^verbatim>\<open>go func() { time.Sleep(d); os.Remove(path) }()\<close> starts a goroutine and returns at
  once: the removal is recorded with the instant at which the sleep ends.
\<close>

definition go_sleep_remove :: "nat \<Rightarrow> string \<Rightarrow> server \<Rightarrow> server" where
  "go_sleep_remove d path s = s\<lparr>pending := pending s @ [(now s + d, path)]\<rparr>"

text \<open>
  Only regular files are in the model, so \<^verbatim>\<open>os.Open\<close> succeeds exactly on the paths
  of the map, \<^verbatim>\<open>Stat\<close> on the open file succeeds and \<^verbatim>\<open>io.Copy\<close> sends the whole
  content.
\<close>

definition downloadHandler :: "Config \<Rightarrow> request \<Rightarrow> server \<Rightarrow> http_response \<times> server" where
  "downloadHandler cfg r s =
     (if Method r \<noteq> ''GET'' then (http_Error ''Method not allowed'' 405, s)
      else
        let filename = TrimPrefix (URLPath r) ''/download/'' in
        if filename = [] then (http_Error ''File not found'' 404, s)
        else
          let filepath = filepath_Join [UploadDir cfg, filename] in
          case files s filepath of
            None \<Rightarrow> (http_Error ''File not found'' 404, s)
          | Some content \<Rightarrow>
              (\<lparr>Status = 200,
                RespHeader =
                  [(''Content-Disposition'', ''attachment; filename='' @ filename),
                   (''Content-Type'', ''application/octet-stream''),
                   (''Content-Length'', string_of_nat (length content))],
                RespBody = FileBody content\<rparr>,
               go_sleep_remove time_Second filepath s))"

text \<open>
  Time passing: the clock moves on by \<open>d\<close> and the goroutines whose sleep has ended by
  then perform their removal, in the order in which they were started.
\<close>

definition is_due :: "nat \<Rightarrow> nat \<times> string \<Rightarrow> bool" where
  "is_due t job \<longleftrightarrow> fst job \<le> t"

definition run_removals :: "(nat \<times> string) list \<Rightarrow> server \<Rightarrow> server" where
  "run_removals jobs s = fold (\<lambda>job. os_Remove (snd job)) jobs s"

definition advance :: "nat \<Rightarrow> server \<Rightarrow> server" where
  "advance d s =
     (let t = now s + d in
        run_removals (filter (is_due t) (pending s))
          (s\<lparr>now := t, pending := filter (\<lambda>job. \<not> is_due t job) (pending s)\<rparr>))"

section \<open>Notions used in the statements\<close>

text \<open>A response reports success when it is a JSON answer whose \<^verbatim>\<open>success\<close> is true.\<close>

definition succeeded :: "http_response \<Rightarrow> bool" where
  "succeeded w = (case RespBody w of JSONBody resp \<Rightarrow> Success resp | _ \<Rightarrow> False)"


text \<open>
  The last steps of both upload handlers (mint the identifier, store the bytes, answer),
  under one name for the proofs.
\<close>

definition storeUpload ::
  "Config \<Rightarrow> string \<Rightarrow> byte list \<Rightarrow> server \<Rightarrow> http_response \<times> server" where
  "storeUpload cfg filename fileData s =
     (case generateRandomFilename filename s of
        (Inl err, s1) \<Rightarrow> (sendJSONResponse False ''Error generating filename'' [], s1)
      | (Inr randomFilename, s1) \<Rightarrow>
          (case saveFileAndGenerateURL cfg randomFilename fileData s1 of
             (Inl err, s2) \<Rightarrow>
               (sendJSONResponse False (''Error saving file: '' @ error_text err) [], s2)
           | (Inr downloadURL, s2) \<Rightarrow>
               (sendJSONResponse True ''File uploaded successfully'' downloadURL, s2)))"

text \<open>The size of the file a path holds, zero when there is none.\<close>

definition old_size :: "server \<Rightarrow> string \<Rightarrow> nat" where
  "old_size s path = (case files s path of None \<Rightarrow> 0 | Some old \<Rightarrow> length old)"

text \<open>The identifier minted for an original filename in a state with enough entropy.\<close>

definition minted :: "server \<Rightarrow> string \<Rightarrow> string" where
  "minted s originalFilename = EncodeToString (take 16 (entropy s)) @ Ext originalFilename"

text \<open>The filename a url-encoded upload uses: the form field, or the placeholder.\<close>

definition form_filename :: "(string \<times> string) list \<Rightarrow> string" where
  "form_filename form =
     (if FormValue form ''filename'' = [] then ''file.dat'' else FormValue form ''filename'')"

text \<open>
  What an upload request carries, in either transport shape: the original filename and
  the payload bytes, read from the request the way the handler for its shape reads them.
\<close>

definition uploaded :: "env \<Rightarrow> Config \<Rightarrow> request \<Rightarrow> (string \<times> byte list) option" where
  "uploaded env cfg r =
     (if HasPrefix (Header_Get (Header r) ''Content-Type'') ''multipart/form-data''
      then (case ParseMultipartForm env r (MaxBytesReader (MaxFileSize cfg) (Body r)) of
              Inl err \<Rightarrow> None
            | Inr form \<Rightarrow>
                (case FormFile form ''file'' of
                   None \<Rightarrow> None
                 | Some header \<Rightarrow> Some (Filename header, Content header)))
      else if Header_Get (Header r) ''Content-Type'' = ''application/x-www-form-urlencoded''
      then (case ParseForm env r of
              Inl err \<Rightarrow> None
            | Inr form \<Rightarrow>
                if FormValue form ''data'' = [] then None
                else (case DecodeString env (FormValue form ''data'') of
                        Inl err \<Rightarrow> None
                      | Inr fileData \<Rightarrow> Some (form_filename form, fileData)))
      else None)"

section \<open>Example inputs\<close>

definition ex_raw :: Config where
  "ex_raw = \<lparr>MaxFileSize = 1000, APIKey = ''secret'', UploadDir = ''uploads'', Port = [],
             Domain_cfg = ''example.org'', AllowedTypes = []\<rparr>"

definition ex_cfg :: Config where
  "ex_cfg = \<lparr>MaxFileSize = 1000, APIKey = ''secret'', UploadDir = ''uploads'',
             Port = '':8080'', Domain_cfg = ''example.org'',
             AllowedTypes = default_allowed_types\<rparr>"

definition ex_test_nokey :: request where
  "ex_test_nokey =
     \<lparr>Method = ''GET'', URLPath = ''/test'', Query = [], Header = Map.empty, Body = []\<rparr>"

definition bytes_of :: "string \<Rightarrow> byte list" where
  "bytes_of s = map (\<lambda>c. of_nat (of_char c)) s"


definition ex_cfg_tight :: Config where
  "ex_cfg_tight = ex_cfg\<lparr>MaxFileSize := 100\<rparr>"





definition ex_form_body :: "byte list" where
  "ex_form_body = bytes_of ''filename=a.png&type=image%2Fpng&data=aGk%3D''"



definition ex_upload_form :: request where
  "ex_upload_form =
     \<lparr>Method = ''POST'', URLPath = ''/upload'', Query = [],
      Header = [''X-API-Key'' \<mapsto> ''secret'',
                ''Content-Type'' \<mapsto> ''application/x-www-form-urlencoded''],
      Body = ex_form_body\<rparr>"

definition ex_get :: "string \<Rightarrow> request" where
  "ex_get path =
     \<lparr>Method = ''GET'', URLPath = path, Query = [], Header = Map.empty, Body = []\<rparr>"

definition ex_server :: server where
  "ex_server = \<lparr>files = Map.empty, free = 5000, dir_ok = True,
                 entropy = replicate 32 0, now = 0, pending = []\<rparr>"

definition ex_id :: string where
  "ex_id = ''AAAAAAAAAAAAAAAAAAAAAA==.png''"


section \<open>Configuration and string lemmas\<close>

lemma ex_cfg_loaded: "loadConfig ex_raw = Inr ex_cfg"
  by (simp add: loadConfig_def ex_raw_def ex_cfg_def)

lemma loadConfig_valid:
  assumes "loadConfig raw = Inr cfg"
  shows "0 < MaxFileSize cfg" and "APIKey cfg \<noteq> []" and "UploadDir cfg \<noteq> []"
    and "Domain_cfg cfg \<noteq> []" and "AllowedTypes cfg \<noteq> []"
  using assms
  by (auto simp: loadConfig_def Let_def default_allowed_types_def split: if_splits)

lemma bad_key:
  assumes "loadConfig raw = Inr cfg" and "Header r ''X-API-Key'' \<noteq> Some (APIKey cfg)"
  shows "Header_Get (Header r) ''X-API-Key'' \<noteq> APIKey cfg"
  using assms loadConfig_valid(2)[OF assms(1)]
  by (auto simp: Header_Get_def split: option.splits)







lemma ext_scan_found:
  "CHR ''.'' \<notin> set e \<Longrightarrow> CHR ''/'' \<notin> set e \<Longrightarrow>
   ext_scan (rev e @ CHR ''.'' # front) seen = CHR ''.'' # e @ seen"
proof (induction e arbitrary: seen rule: rev_induct)
  case Nil
  show ?case by simp
next
  case (snoc x xs)
  then show ?case by auto
qed

lemma Ext_of_dotted:
  "CHR ''.'' \<notin> set e \<Longrightarrow> CHR ''/'' \<notin> set e \<Longrightarrow> Ext (stem @ CHR ''.'' # e) = CHR ''.'' # e"
  using ext_scan_found[of e "rev stem" "[]"] by (simp add: Ext_def)

lemma Ext_png: "Ext (stem @ ''.png'') = ''.png''"
  using Ext_of_dotted[of "''png''" stem] by simp





section \<open>Lemmas about the upload pipeline\<close>


lemma succeeded_sendJSONResponse: "succeeded (sendJSONResponse ok msg url) = ok"
  by (simp add: succeeded_def sendJSONResponse_def encode_json_def)

lemma generateRandomFilename_eq:
  "generateRandomFilename name s =
     (if length (entropy s) < 16 then (Inl EntropyUnavailable, s)
      else (Inr (minted s name), s\<lparr>entropy := drop 16 (entropy s)\<rparr>))"
  by (simp add: generateRandomFilename_def rand_Read_def Let_def minted_def)

lemma saveFileAndGenerateURL_eq:
  "saveFileAndGenerateURL cfg filename data s =
     (if \<not> dir_ok s
      then (Inl (PathError ''open'' (filepath_Join [UploadDir cfg, filename])
                  ''permission denied''), s)
      else if length data \<le> free s + old_size s (filepath_Join [UploadDir cfg, filename])
      then (Inr (''https://'' @ Domain_cfg cfg @ ''/download/'' @ filename),
            s\<lparr>files := (files s)(filepath_Join [UploadDir cfg, filename] \<mapsto> data),
              free := free s + old_size s (filepath_Join [UploadDir cfg, filename])
                      - length data\<rparr>)
      else (Inl (PathError ''write'' (filepath_Join [UploadDir cfg, filename])
                  ''no space left on device''),
            s\<lparr>files := (files s)(filepath_Join [UploadDir cfg, filename] \<mapsto>
                         take (free s + old_size s (filepath_Join [UploadDir cfg, filename]))
                           data),
              free := 0\<rparr>))"
  by (simp add: saveFileAndGenerateURL_def os_Create_def io_Copy_def Let_def old_size_def)

lemma storeUpload_succeeded:
  assumes "succeeded (fst (storeUpload cfg name data s))"
  shows "16 \<le> length (entropy s)" and "dir_ok s"
    and "fst (storeUpload cfg name data s) =
           sendJSONResponse True ''File uploaded successfully''
             (''https://'' @ Domain_cfg cfg @ ''/download/'' @ minted s name)"
    and "files (snd (storeUpload cfg name data s)) =
           (files s)(filepath_Join [UploadDir cfg, minted s name] \<mapsto> data)"
  using assms
  by (auto simp: storeUpload_def generateRandomFilename_eq saveFileAndGenerateURL_eq
      succeeded_sendJSONResponse split: if_splits)

lemma storeUpload_ok:
  assumes "16 \<le> length (entropy s)" and "dir_ok s" and "length data \<le> free s"
  shows "succeeded (fst (storeUpload cfg name data s))"
  using assms
  by (simp add: storeUpload_def generateRandomFilename_eq saveFileAndGenerateURL_eq
      succeeded_sendJSONResponse)

lemma storeUpload_failed:
  assumes "\<not> succeeded (fst (storeUpload cfg name data s))"
    and "dir_ok s \<longrightarrow> length data \<le> free s"
  shows "files (snd (storeUpload cfg name data s)) = files s"
  using assms
  by (auto simp: storeUpload_def generateRandomFilename_eq saveFileAndGenerateURL_eq
      succeeded_sendJSONResponse split: if_splits)

lemma storeUpload_not_type_error:
  "fst (storeUpload cfg name data s) \<noteq> sendJSONResponse False ''File type not allowed'' []"
  by (simp add: storeUpload_def generateRandomFilename_eq saveFileAndGenerateURL_eq
      sendJSONResponse_def encode_json_def)







lemma ex_entropy_16: "take 16 (entropy ex_server) = replicate 16 0"
  by (simp add: ex_server_def)

lemma ex_random_name: "EncodeToString (replicate 16 0) = ''AAAAAAAAAAAAAAAAAAAAAA==''"
  by code_simp

lemma ex_minted: "minted ex_server (stem @ ''.png'') = ''AAAAAAAAAAAAAAAAAAAAAA==.png''"
  unfolding minted_def ex_entropy_16 ex_random_name Ext_png by simp

section \<open>Health check endpoint\<close>

text \<open>
  Claim C10. A \<^verbatim>\<open>GET /test\<close> request whose \<^verbatim>\<open>X-API-Key\<close> header is missing or is
  not the configured key is answered with status 200 and the JSON object
  \<^verbatim>\<open>{success:false, message:"Invalid API key"}\<close>, which has no \<^verbatim>\<open>max_file_size\<close>
  field; with the configured key the answer is \<^verbatim>\<open>success:true\<close> and carries
  \<^verbatim>\<open>max_file_size\<close> equal to the configured limit. The failure is a 200, not a 401.
\<close>

theorem testHandler_key_check:
  assumes "loadConfig raw = Inr cfg" and "Method r = ''GET''"
  shows "(Header r ''X-API-Key'' \<noteq> Some (APIKey cfg) \<longrightarrow>
            Status (testHandler cfg r) = 200 \<and>
            json_of (testHandler cfg r) =
              Some [(''success'', JBool False), (''message'', JString ''Invalid API key'')])
       \<and> (Header r ''X-API-Key'' = Some (APIKey cfg) \<longrightarrow>
            Status (testHandler cfg r) = 200 \<and>
            json_of (testHandler cfg r) =
              Some [(''success'', JBool True), (''message'', JString ''API key is valid''),
                    (''max_file_size'', JNumber (MaxFileSize cfg))])"
proof (intro conjI impI)
  assume bad: "Header r ''X-API-Key'' \<noteq> Some (APIKey cfg)"
  have ne: "Header_Get (Header r) ''X-API-Key'' \<noteq> APIKey cfg"
    using bad_key[OF assms(1) bad] .
  show "Status (testHandler cfg r) = 200"
    using assms(2) ne by (simp add: testHandler_def sendJSONResponse_def encode_json_def)
  show "json_of (testHandler cfg r) =
      Some [(''success'', JBool False), (''message'', JString ''Invalid API key'')]"
    using assms(2) ne
    by (simp add: testHandler_def sendJSONResponse_def encode_json_def json_of_def
        json_fields_def)
next
  assume good: "Header r ''X-API-Key'' = Some (APIKey cfg)"
  have pos: "MaxFileSize cfg \<noteq> 0" using loadConfig_valid(1)[OF assms(1)] by simp
  show "Status (testHandler cfg r) = 200"
    using assms(2) good by (simp add: testHandler_def Header_Get_def encode_json_def)
  show "json_of (testHandler cfg r) =
      Some [(''success'', JBool True), (''message'', JString ''API key is valid''),
            (''max_file_size'', JNumber (MaxFileSize cfg))]"
    using assms(2) good pos
    by (simp add: testHandler_def Header_Get_def encode_json_def json_of_def json_fields_def)
qed

theorem testHandler_key_check_witness:
  "loadConfig ex_raw = Inr ex_cfg \<and> Method ex_test_nokey = ''GET'' \<and>
   Header ex_test_nokey ''X-API-Key'' \<noteq> Some (APIKey ex_cfg) \<and>
   Status (testHandler ex_cfg ex_test_nokey) = 200 \<and>
   json_of (testHandler ex_cfg ex_test_nokey) =
     Some [(''success'', JBool False), (''message'', JString ''Invalid API key'')]"
proof -
  have m: "Method ex_test_nokey = ''GET''" by (simp add: ex_test_nokey_def)
  have k: "Header ex_test_nokey ''X-API-Key'' \<noteq> Some (APIKey ex_cfg)"
    by (simp add: ex_test_nokey_def)
  show ?thesis
    using testHandler_key_check[OF ex_cfg_loaded m] ex_cfg_loaded m k by simp
qed

section \<open>Type Validator: the wildcard prefix\<close>

text \<open>
  Claim C3. The Type Validator is to accept a candidate exactly when an allow-list entry
  equals it up to case, or an entry \<^verbatim>\<open>category/*\<close> exists and the candidate begins, up
  to case, with \<^verbatim>\<open>category/\<close>, the slash included. The code strips \<^verbatim>\<open>/*\<close> from the
  entry and tests for the prefix \<^verbatim>\<open>category\<close> alone: with the default allow-list the
  candidate \<^verbatim>\<open>imagery/x\<close> is accepted through \<^verbatim>\<open>image/*\<close>, although it neither equals
  an entry nor begins with \<^verbatim>\<open>image/\<close>.
\<close>

theorem isAllowedFileType_prefix_without_slash:
  "isAllowedFileType ex_cfg ''imagery/x'' \<and>
   \<not> spec_allowed (AllowedTypes ex_cfg) ''imagery/x'' \<and>
   \<not> HasPrefix (ToLower ''imagery/x'') ''image/''"
  by (simp add: isAllowedFileType_def spec_allowed_def ex_cfg_def default_allowed_types_def
      exact_match_def wildcard_match_def spec_wildcard_def ToLower_def lower_char_def
      HasPrefix_def HasSuffix_def TrimSuffix_def)

section \<open>Filename Generator\<close>



end
